theory Spec2Isabelle
  imports Complex_Main "HOL-Library.Sublist"
begin

section \<open>Zygosity: VCF filters and genotype counting\<close>

text \<open>
  A shallow embedding of \<^verbatim>\<open>filteration.py\<close> and of the counting and orchestration parts
  of \<^verbatim>\<open>zygosity.py\<close>.

  Conventions of the model.
  \<^item> A Python \<^verbatim>\<open>str\<close> is a \<^typ>\<open>string\<close>; characters are the code points 0..255.
  \<^item> A Python \<^verbatim>\<open>float\<close> is a value of the type \<open>pyfloat\<close>: a rational (a binary64
    value), an infinity, or NaN. Parsing a decimal literal rounds it to the nearest
    binary64 value, ties to even. NaN is also the value pandas gives a row whose pattern
    does not match.
  \<^item> A Python \<^verbatim>\<open>int\<close> is an unbounded \<^typ>\<open>int\<close>; the integer dtype of
    \<^verbatim>\<open>astype(int)\<close> is the 64-bit signed range, and a value outside it raises
    OverflowError.
  \<^item> An exception is a value \<^term>\<open>Inl e\<close> of \<open>error + 'a\<close>.
  \<^item> Console output (\<^verbatim>\<open>print\<close>) changes no returned value and is left out, so the
    \<^verbatim>\<open>verbosity\<close> parameter, which only selects what is printed, is left out as well.
\<close>

subsection \<open>Python string primitives\<close>

definition is_digit :: "char \<Rightarrow> bool" where
  \<comment> \<open>\<^verbatim>\<open>\d\<close> on code points below 256\<close>
  "is_digit c = (c \<in> set ''0123456789'')"

definition is_digit_or_dot :: "char \<Rightarrow> bool" where
  \<comment> \<open>the class \<^verbatim>\<open>[\d.]\<close>\<close>
  "is_digit_or_dot c = (is_digit c \<or> c = CHR ''.'')"

definition is_space :: "char \<Rightarrow> bool" where
  \<comment> \<open>the code points below 256 that \<^verbatim>\<open>str.strip()\<close> removes\<close>
  "is_space c = ((of_char c :: nat) \<in> {9, 10, 11, 12, 13, 28, 29, 30, 31, 32, 133, 160})"

definition is_int_space :: "char \<Rightarrow> bool" where
  \<comment> \<open>the code points below 256 that \<^verbatim>\<open>int()\<close> skips around a literal: the six ASCII
      whitespace characters, and the two non-ASCII spaces, which it first turns into a
      blank. The separators 28 to 31 are not among them.\<close>
  "is_int_space c = ((of_char c :: nat) \<in> {9, 10, 11, 12, 13, 32, 133, 160})"

definition py_strip :: "string \<Rightarrow> string" where
  \<comment> \<open>\<^verbatim>\<open>s.strip()\<close>\<close>
  "py_strip s = rev (dropWhile is_space (rev (dropWhile is_space s)))"

fun py_split :: "char \<Rightarrow> string \<Rightarrow> string list" where
  \<comment> \<open>\<^verbatim>\<open>s.split(sep)\<close> for a one-character separator: never the empty list\<close>
  "py_split sep [] = [[]]"
| "py_split sep (c # cs) =
     (if c = sep then [] # py_split sep cs
      else (case py_split sep cs of
              [] \<Rightarrow> [[c]]
            | w # ws \<Rightarrow> (c # w) # ws))"

fun py_in :: "string \<Rightarrow> string \<Rightarrow> bool" where
  \<comment> \<open>\<^verbatim>\<open>pat in s\<close> on strings: \<open>pat\<close> occurs as a contiguous substring of \<open>s\<close>\<close>
  "py_in pat [] = (pat = [])"
| "py_in pat (c # cs) = (prefix pat (c # cs) \<or> py_in pat cs)"

definition digit_val :: "char \<Rightarrow> nat" where
  "digit_val c = of_char c - 48"

definition digits_val :: "string \<Rightarrow> nat" where
  "digits_val s = foldl (\<lambda>a c. 10 * a + digit_val c) 0 s"

definition py_int :: "string \<Rightarrow> int option" where
  \<comment> \<open>\<^verbatim>\<open>int(s)\<close>: whitespace around the literal, an optional sign, then decimal digits in
      groups separated by single underscores, at most 4300 digits (the interpreter's
      default limit); \<^term>\<open>None\<close> is ValueError\<close>
  "py_int s =
     (let t = rev (dropWhile is_int_space (rev (dropWhile is_int_space s)));
          neg = (case t of [] \<Rightarrow> False | c # _ \<Rightarrow> c = CHR ''-'');
          body = (case t of [] \<Rightarrow> []
                  | c # b \<Rightarrow> if c = CHR ''-'' \<or> c = CHR ''+'' then b else t);
          groups = py_split (CHR ''_'') body
      in if list_all (\<lambda>g. g \<noteq> [] \<and> list_all is_digit g) groups
            \<and> length (concat groups) \<le> 4300
         then Some (if neg then - int (digits_val (concat groups))
                    else int (digits_val (concat groups)))
         else None)"

subsection \<open>Floats\<close>

datatype pyfloat = Finite rat | PosInf | NegInf | NaN

fun float_lt :: "pyfloat \<Rightarrow> pyfloat \<Rightarrow> bool" where
  \<comment> \<open>\<^verbatim>\<open>a < b\<close> on floats: false when either side is NaN\<close>
  "float_lt (Finite a) (Finite b) = (a < b)"
| "float_lt (Finite a) PosInf = True"
| "float_lt NegInf (Finite b) = True"
| "float_lt NegInf PosInf = True"
| "float_lt a b = False"

definition float_le :: "pyfloat \<Rightarrow> pyfloat \<Rightarrow> bool" where
  \<comment> \<open>\<^verbatim>\<open>a <= b\<close> on floats: false when either side is NaN\<close>
  "float_le a b = (float_lt a b \<or> (a = b \<and> a \<noteq> NaN))"

fun bit_length :: "nat \<Rightarrow> nat" where
  "bit_length n = (if n = 0 then 0 else Suc (bit_length (n div 2)))"

declare bit_length.simps [simp del]

definition binary_exponent :: "nat \<Rightarrow> nat \<Rightarrow> int" where
  \<comment> \<open>for positive \<open>n\<close> and \<open>d\<close>, the exponent \<open>e\<close> of the binary64 unit in the last place
      at \<open>n / d\<close>: \<open>2 ^ 52 \<le> n / (d * 2 ^ e) < 2 ^ 53\<close>, and not below the subnormal
      exponent\<close>
  "binary_exponent n d =
     (let k = int (bit_length n) - int (bit_length d);
          fl = (if (if 0 \<le> k then d * 2 ^ nat k \<le> n else d \<le> n * 2 ^ nat (- k))
                then k else k - 1)
      in max (fl - 52) (- 1074))"

definition round_binary64 :: "nat \<Rightarrow> nat \<Rightarrow> pyfloat" where
  \<comment> \<open>the binary64 value nearest to \<open>n / d\<close> (\<open>d\<close> positive), ties to even, infinity
      beyond the largest finite value\<close>
  "round_binary64 n d =
     (if n = 0 then Finite 0
      else let e = binary_exponent n d;
               num = (if 0 \<le> e then n else n * 2 ^ nat (- e));
               den = (if 0 \<le> e then d * 2 ^ nat e else d);
               q = num div den;
               r = num mod den;
               m = (if den < 2 * r \<or> (2 * r = den \<and> odd q) then q + 1 else q)
           in if 971 < e \<or> (e = 971 \<and> 2 ^ 53 \<le> m) then PosInf
              else Finite (if 0 \<le> e then of_nat (m * 2 ^ nat e)
                           else of_nat m / 2 ^ nat (- e)))"

definition py_float :: "string \<Rightarrow> pyfloat option" where
  \<comment> \<open>\<^verbatim>\<open>float(s)\<close> on the strings the patterns below can capture (digits and dots):
      a literal has at least one digit and at most one dot, and is rounded to binary64;
      \<^term>\<open>None\<close> is ValueError\<close>
  "py_float s =
     (let ip = takeWhile (\<lambda>c. c \<noteq> CHR ''.'') s;
          rest = dropWhile (\<lambda>c. c \<noteq> CHR ''.'') s
      in if \<not> list_all is_digit_or_dot s then None
         else (case rest of
                 [] \<Rightarrow> if ip = [] then None else Some (round_binary64 (digits_val ip) 1)
               | _ # fp \<Rightarrow>
                   if CHR ''.'' \<in> set fp then None
                   else if ip = [] \<and> fp = [] then None
                   else Some (round_binary64 (digits_val (ip @ fp)) (10 ^ length fp))))"

fun str_extract :: "string \<Rightarrow> (char \<Rightarrow> bool) \<Rightarrow> string \<Rightarrow> string option" where
  \<comment> \<open>\<^verbatim>\<open>Series.str.extract(key(cls+), expand=False)\<close> on one cell: at the leftmost
      position where \<open>key\<close> is followed by a character of \<open>cls\<close>, the longest run of
      \<open>cls\<close> characters; \<^term>\<open>None\<close> (NaN) when there is no such position\<close>
  "str_extract key cls [] = None"
| "str_extract key cls (c # cs) =
     (if prefix key (c # cs) \<and> takeWhile cls (drop (length key) (c # cs)) \<noteq> []
      then Some (takeWhile cls (drop (length key) (c # cs)))
      else str_extract key cls cs)"

subsection \<open>Tables\<close>

text \<open>
  A pandas DataFrame: its column labels in order, and its rows in order. A row gives the
  cell of every column label; all cells are strings, as they are when the table is read
  from a VCF file whose header line is promoted from the data. The fixed columns
  \<^verbatim>\<open>#CHROM\<close>, \<^verbatim>\<open>POS\<close>, \<^verbatim>\<open>FILTER\<close> and \<^verbatim>\<open>INFO\<close> are taken to
  be present, and column labels to be distinct.
\<close>

type_synonym row = "string \<Rightarrow> string"

record dataframe =
  columns :: "string list"
  rows :: "row list"

datatype error = ValueError | KeyError | OverflowError

datatype pyval = PyInt int | PyStr string

definition select_rows :: "dataframe \<Rightarrow> bool list \<Rightarrow> dataframe" where
  \<comment> \<open>\<^verbatim>\<open>df[mask]\<close> for a boolean mask aligned with the rows\<close>
  "select_rows df keep = df\<lparr>rows := map fst (filter snd (zip (rows df) keep))\<rparr>"

definition float_entry :: "string option \<Rightarrow> error + pyfloat" where
  \<comment> \<open>one entry under \<^verbatim>\<open>.astype(float)\<close>: NaN stays NaN, a string is parsed\<close>
  "float_entry x =
     (case x of
        None \<Rightarrow> Inr NaN
      | Some s \<Rightarrow> (case py_float s of None \<Rightarrow> Inl ValueError | Some v \<Rightarrow> Inr v))"

fun astype_float :: "string option list \<Rightarrow> error + pyfloat list" where
  \<comment> \<open>\<^verbatim>\<open>.astype(float)\<close> on an extracted column: the first entry that cannot be
      converted raises for the whole column\<close>
  "astype_float [] = Inr []"
| "astype_float (x # xs) =
     (case float_entry x of
        Inl e \<Rightarrow> Inl e
      | Inr v \<Rightarrow> (case astype_float xs of Inl e \<Rightarrow> Inl e | Inr vs \<Rightarrow> Inr (v # vs)))"

definition int64_entry :: "string option \<Rightarrow> error + int" where
  \<comment> \<open>one entry under \<^verbatim>\<open>.astype(int)\<close>: NaN cannot be converted to an integer and a
      string that is no integer literal cannot either (ValueError); an integer outside the
      64-bit signed range raises OverflowError\<close>
  "int64_entry x =
     (case x of
        None \<Rightarrow> Inl ValueError
      | Some s \<Rightarrow>
          (case py_int s of
             None \<Rightarrow> Inl ValueError
           | Some v \<Rightarrow> if - (2 ^ 63) \<le> v \<and> v < 2 ^ 63 then Inr v else Inl OverflowError))"

fun astype_int :: "string option list \<Rightarrow> error + int list" where
  \<comment> \<open>\<^verbatim>\<open>.astype(int)\<close>: the first entry that cannot be converted raises for the whole
      column\<close>
  "astype_int [] = Inr []"
| "astype_int (x # xs) =
     (case int64_entry x of
        Inl e \<Rightarrow> Inl e
      | Inr v \<Rightarrow> (case astype_int xs of Inl e \<Rightarrow> Inl e | Inr vs \<Rightarrow> Inr (v # vs)))"

definition nan_gt :: "pyfloat \<Rightarrow> pyfloat \<Rightarrow> bool" where
  \<comment> \<open>\<^verbatim>\<open>v > t\<close> on floats: False when \<open>v\<close> (or \<open>t\<close>) is NaN\<close>
  "nan_gt v t = float_lt t v"

fun py_eq_int :: "int \<Rightarrow> pyval \<Rightarrow> bool" where
  \<comment> \<open>\<^verbatim>\<open>==\<close> of an integer column entry with a Python value: an int is never equal to
      a str\<close>
  "py_eq_int v (PyInt n) = (v = n)"
| "py_eq_int v (PyStr s) = False"

subsection \<open>The six filters (filteration.py)\<close>

definition filter_af :: "dataframe \<Rightarrow> pyfloat \<Rightarrow> error + dataframe" where
  "filter_af df af_threshold =
     (if float_le (Finite 0) af_threshold \<and> float_le af_threshold (Finite 1)
      then (case astype_float
                   (map (\<lambda>r. str_extract ''AF='' is_digit_or_dot (r ''INFO'')) (rows df)) of
              Inl e \<Rightarrow> Inl e
            | Inr vs \<Rightarrow> Inr (select_rows df (map (\<lambda>v. nan_gt v af_threshold) vs)))
      else Inr df)"

definition filter_dp :: "dataframe \<Rightarrow> pyfloat option \<Rightarrow> error + dataframe" where
  \<comment> \<open>\<^verbatim>\<open>not dp_threshold\<close> holds for \<^verbatim>\<open>None\<close> and for zero\<close>
  "filter_dp df dp_threshold =
     (let t = (case dp_threshold of
                 None \<Rightarrow> Finite 10
               | Some x \<Rightarrow> if x = Finite 0 then Finite 10
                           else if float_lt x (Finite 0) then Finite 10 else x)
      in case astype_float
                (map (\<lambda>r. str_extract ''DP='' is_digit (r ''INFO'')) (rows df)) of
           Inl e \<Rightarrow> Inl e
         | Inr vs \<Rightarrow> Inr (select_rows df (map (\<lambda>v. nan_gt v t) vs)))"

definition filter_chr :: "dataframe \<Rightarrow> pyval \<Rightarrow> error + dataframe" where
  "filter_chr df selected_chr =
     (case astype_int
             (map (\<lambda>r. str_extract ''chr'' is_digit (r ''#CHROM'')) (rows df)) of
        Inl e \<Rightarrow> Inl e
      | Inr vs \<Rightarrow> Inr (select_rows df (map (\<lambda>v. py_eq_int v selected_chr) vs)))"

fun int_each :: "string list \<Rightarrow> error + int list" where
  \<comment> \<open>\<^verbatim>\<open>[int(val.strip()) for val in vals]\<close>\<close>
  "int_each [] = Inr []"
| "int_each (val # vals) =
     (case py_int (py_strip val) of
        None \<Rightarrow> Inl ValueError
      | Some v \<Rightarrow> (case int_each vals of Inl e \<Rightarrow> Inl e | Inr vs \<Rightarrow> Inr (v # vs)))"

definition filter_position_try :: "dataframe \<Rightarrow> string \<Rightarrow> error + dataframe" where
  \<comment> \<open>the body of the \<^verbatim>\<open>try\<close> block\<close>
  "filter_position_try df selected_pos_range =
     (case int_each (py_split (CHR ''-'') selected_pos_range) of
        Inl e \<Rightarrow> Inl e
      | Inr rng \<Rightarrow>
          if length rng = 2
          then (case astype_int (map (\<lambda>r. Some (r ''POS'')) (rows df)) of
                  Inl e \<Rightarrow> Inl e
                | Inr ps \<Rightarrow>
                    Inr (select_rows df (map (\<lambda>p. rng ! 0 < p \<and> p < rng ! 1) ps)))
          else Inr df)"

definition filter_position :: "dataframe \<Rightarrow> string \<Rightarrow> error + dataframe" where
  \<comment> \<open>\<^verbatim>\<open>except ValueError\<close> catches every ValueError of the block, whichever line raised
      it, and no other exception\<close>
  "filter_position df selected_pos_range =
     (case filter_position_try df selected_pos_range of
        Inl ValueError \<Rightarrow> Inr df
      | Inl e \<Rightarrow> Inl e
      | Inr d \<Rightarrow> Inr d)"

definition include_filter :: "dataframe \<Rightarrow> string \<Rightarrow> dataframe" where
  "include_filter df selected_val =
     select_rows df (map (\<lambda>r. r ''FILTER'' = selected_val) (rows df))"

definition exclude_filter :: "dataframe \<Rightarrow> string \<Rightarrow> dataframe" where
  "exclude_filter df selected_val =
     select_rows df (map (\<lambda>r. r ''FILTER'' \<noteq> selected_val) (rows df))"

subsection \<open>Counting genotypes and the pipeline (zygosity.py)\<close>

definition first_field :: "string \<Rightarrow> string" where
  \<comment> \<open>\<^verbatim>\<open>x.split(':')[0]\<close>; the split is never empty\<close>
  "first_field x = hd (py_split (CHR '':'') x)"

definition count_cells :: "string \<Rightarrow> dataframe \<Rightarrow> string list \<Rightarrow> int" where
  \<comment> \<open>\<^verbatim>\<open>df[cols].applymap(lambda x: pat in x.split(':')[0]).sum().sum()\<close>: the sum over
      the columns of the column sums of the boolean frame\<close>
  "count_cells pat df cols =
     sum_list (map (\<lambda>c. sum_list (map (\<lambda>r. if py_in pat (first_field (r c)) then 1 else 0)
                                      (rows df))) cols)"

definition variants_of :: "dataframe \<Rightarrow> string list \<Rightarrow> (string \<rightharpoonup> int)" where
  \<comment> \<open>the four assignments to the dict \<^verbatim>\<open>variants\<close>\<close>
  "variants_of df cols =
     [''g 1/1'' \<mapsto> count_cells ''1/1'' df cols,
      ''g 1/0'' \<mapsto> count_cells ''1/0'' df cols,
      ''g 0/1'' \<mapsto> count_cells ''0/1'' df cols,
      ''g 0/0'' \<mapsto> count_cells ''0/0'' df cols]"

definition calc_zygosity ::
  "dataframe \<Rightarrow> string option \<Rightarrow> error + dataframe \<times> (string \<rightharpoonup> int)" where
  \<comment> \<open>lines 21 to 42: the table after the column drop, and the dict \<^verbatim>\<open>variants\<close>.
      \<^verbatim>\<open>df[[sample_name]]\<close> raises KeyError for a label that is no column. The
      \<^verbatim>\<open>include_info\<close> columns and the writing of files are not part of the model.\<close>
  "calc_zygosity df sample_name =
     (case sample_name of
        None \<Rightarrow> Inr (df, variants_of df (filter (prefix ''SAMPLE'') (columns df)))
      | Some s \<Rightarrow>
          if s = [] then Inr (df, variants_of df (filter (prefix ''SAMPLE'') (columns df)))
          else (let cols_to_drop = filter (\<lambda>c. prefix ''SAMPLE'' c \<and> c \<noteq> s) (columns df);
                    df' = df\<lparr>columns := filter (\<lambda>c. c \<notin> set cols_to_drop) (columns df)\<rparr>
                in if s \<in> set (columns df') then Inr (df', variants_of df' [s])
                   else Inl KeyError))"

definition truthy_float :: "pyfloat option \<Rightarrow> bool" where
  \<comment> \<open>a float is falsy exactly when it is zero; NaN and the infinities are truthy\<close>
  "truthy_float v = (case v of None \<Rightarrow> False | Some x \<Rightarrow> x \<noteq> Finite 0)"

definition truthy_str :: "string option \<Rightarrow> bool" where
  "truthy_str v = (case v of None \<Rightarrow> False | Some s \<Rightarrow> s \<noteq> [])"

definition truthy_val :: "pyval option \<Rightarrow> bool" where
  "truthy_val v =
     (case v of None \<Rightarrow> False | Some (PyInt n) \<Rightarrow> n \<noteq> 0 | Some (PyStr s) \<Rightarrow> s \<noteq> [])"

definition and_then :: "error + 'a \<Rightarrow> ('a \<Rightarrow> error + 'b) \<Rightarrow> error + 'b" where
  \<comment> \<open>sequencing of two statements: an exception of the first skips the second\<close>
  "and_then m f = (case m of Inl e \<Rightarrow> Inl e | Inr x \<Rightarrow> f x)"

definition process_vcf_file ::
  "dataframe \<Rightarrow> string option \<Rightarrow> pyfloat option \<Rightarrow> pyfloat option \<Rightarrow> pyval option \<Rightarrow>
   string option \<Rightarrow> string option \<Rightarrow> string option \<Rightarrow>
   error + dataframe \<times> (string \<rightharpoonup> int)" where
  \<comment> \<open>lines 106 to 123, from the table the reader produced (\<open>df_vcf\<close>) on\<close>
  "process_vcf_file df_vcf sample depth af chromosome position_range incl excl =
     and_then (filter_dp df_vcf depth) (\<lambda>d1.
     and_then (if truthy_float af then filter_af d1 (the af) else Inr d1) (\<lambda>d2.
     and_then (if truthy_val chromosome then filter_chr d2 (the chromosome) else Inr d2) (\<lambda>d3.
     and_then (if truthy_str position_range then filter_position d3 (the position_range)
               else Inr d3) (\<lambda>d4.
     and_then (if truthy_str incl then Inr (include_filter d4 (the incl)) else Inr d4) (\<lambda>d5.
     and_then (if truthy_str excl then Inr (exclude_filter d5 (the excl)) else Inr d5) (\<lambda>d6.
     calc_zygosity d6 sample))))))"

subsection \<open>The filters on references\<close>

text \<open>
  A DataFrame is a Python object handed over by reference. To say that a filter leaves
  the table it was given as it was, the objects are put in a store: a list of tables, an
  object's reference being its index. \<^verbatim>\<open>df[mask]\<close> makes a new object; the branches
  that do not filter (\<^verbatim>\<open>df_filtered_by_af = df\<close>, \<^verbatim>\<open>df_filtered_by_pos = df\<close>) return
  the reference they were given. No filter assigns to \<^verbatim>\<open>df\<close> or to one of its cells.
  A reference is valid when it is below the length of the store; the statements about
  these functions are for a valid reference.
\<close>

type_synonym store = "dataframe list"

definition new_frame :: "store \<Rightarrow> dataframe \<Rightarrow> store \<times> nat" where
  \<comment> \<open>a new object, and its reference\<close>
  "new_frame st d = (st @ [d], length st)"

definition filter_af_ref :: "store \<Rightarrow> nat \<Rightarrow> pyfloat \<Rightarrow> error + store \<times> nat" where
  "filter_af_ref st df af_threshold =
     (if float_le (Finite 0) af_threshold \<and> float_le af_threshold (Finite 1)
      then (case filter_af (st ! df) af_threshold of
              Inl e \<Rightarrow> Inl e
            | Inr d \<Rightarrow> Inr (new_frame st d))
      else Inr (st, df))"

definition filter_dp_ref :: "store \<Rightarrow> nat \<Rightarrow> pyfloat option \<Rightarrow> error + store \<times> nat" where
  "filter_dp_ref st df dp_threshold =
     (case filter_dp (st ! df) dp_threshold of
        Inl e \<Rightarrow> Inl e
      | Inr d \<Rightarrow> Inr (new_frame st d))"

definition filter_chr_ref :: "store \<Rightarrow> nat \<Rightarrow> pyval \<Rightarrow> error + store \<times> nat" where
  "filter_chr_ref st df selected_chr =
     (case filter_chr (st ! df) selected_chr of
        Inl e \<Rightarrow> Inl e
      | Inr d \<Rightarrow> Inr (new_frame st d))"

definition filter_position_ref :: "store \<Rightarrow> nat \<Rightarrow> string \<Rightarrow> error + store \<times> nat" where
  "filter_position_ref st df selected_pos_range =
     (case int_each (py_split (CHR ''-'') selected_pos_range) of
        Inl ValueError \<Rightarrow> Inr (st, df)
      | Inl e \<Rightarrow> Inl e
      | Inr rng \<Rightarrow>
          if length rng = 2
          then (case astype_int (map (\<lambda>r. Some (r ''POS'')) (rows (st ! df))) of
                  Inl ValueError \<Rightarrow> Inr (st, df)
                | Inl e \<Rightarrow> Inl e
                | Inr ps \<Rightarrow>
                    Inr (new_frame st
                          (select_rows (st ! df) (map (\<lambda>p. rng ! 0 < p \<and> p < rng ! 1) ps))))
          else Inr (st, df))"

definition include_filter_ref :: "store \<Rightarrow> nat \<Rightarrow> string \<Rightarrow> error + store \<times> nat" where
  "include_filter_ref st df selected_val = Inr (new_frame st (include_filter (st ! df) selected_val))"

definition exclude_filter_ref :: "store \<Rightarrow> nat \<Rightarrow> string \<Rightarrow> error + store \<times> nat" where
  "exclude_filter_ref st df selected_val = Inr (new_frame st (exclude_filter (st ! df) selected_val))"

definition row_of :: "(string \<times> string) list \<Rightarrow> row" where
  \<comment> \<open>a row written as label and cell pairs, for concrete tables\<close>
  "row_of kvs c = (case map_of kvs c of None \<Rightarrow> [] | Some v \<Rightarrow> v)"

subsection \<open>Notions used in the statements\<close>

definition float_ok :: "string option \<Rightarrow> bool" where
  \<comment> \<open>an extracted entry that \<^verbatim>\<open>astype(float)\<close> converts: NaN, or a float literal\<close>
  "float_ok x = (case float_entry x of Inl e \<Rightarrow> False | Inr v \<Rightarrow> True)"

definition float_of :: "string option \<Rightarrow> pyfloat" where
  \<comment> \<open>the float of an extracted entry; NaN for an entry that is no float literal\<close>
  "float_of x = (case float_entry x of Inl e \<Rightarrow> NaN | Inr v \<Rightarrow> v)"

definition int_ok :: "string option \<Rightarrow> bool" where
  \<comment> \<open>an entry that \<^verbatim>\<open>astype(int)\<close> converts: an integer literal in the 64-bit range\<close>
  "int_ok x = (case int64_entry x of Inl e \<Rightarrow> False | Inr v \<Rightarrow> True)"

definition int_of :: "string option \<Rightarrow> int" where
  \<comment> \<open>only used on entries that satisfy \<^const>\<open>int_ok\<close>\<close>
  "int_of x = (case int64_entry x of Inl e \<Rightarrow> 0 | Inr v \<Rightarrow> v)"

definition dp_value :: "row \<Rightarrow> pyfloat" where
  \<comment> \<open>the extracted DP value of a row, NaN when INFO has no \<^verbatim>\<open>DP=<digits>\<close>\<close>
  "dp_value r = float_of (str_extract ''DP='' is_digit (r ''INFO''))"

definition af_value :: "row \<Rightarrow> pyfloat" where
  \<comment> \<open>the extracted AF value of a row, NaN when INFO has no \<^verbatim>\<open>AF=\<close> token or the token
      is no float literal\<close>
  "af_value r = float_of (str_extract ''AF='' is_digit_or_dot (r ''INFO''))"

definition af_token_ok :: "row \<Rightarrow> bool" where
  \<comment> \<open>the \<^verbatim>\<open>AF=\<close> token of the row, when there is one, is a float literal\<close>
  "af_token_ok r = float_ok (str_extract ''AF='' is_digit_or_dot (r ''INFO''))"

definition chrom_matches :: "row \<Rightarrow> bool" where
  \<comment> \<open>the CHROM cell matches \<^verbatim>\<open>chr(\d+)\<close>\<close>
  "chrom_matches r = (str_extract ''chr'' is_digit (r ''#CHROM'') \<noteq> None)"

definition chrom_int64 :: "row \<Rightarrow> bool" where
  \<comment> \<open>the CHROM cell matches \<^verbatim>\<open>chr(\d+)\<close> with at most 4300 digits that denote an integer
      of the 64-bit signed range\<close>
  "chrom_int64 r =
     (case str_extract ''chr'' is_digit (r ''#CHROM'') of
        None \<Rightarrow> False
      | Some tok \<Rightarrow> length tok \<le> 4300 \<and> digits_val tok < 2 ^ 63)"

definition range_tokens :: "string \<Rightarrow> int option list" where
  \<comment> \<open>the range string split on \<^verbatim>\<open>-\<close>, each part trimmed and read as an integer\<close>
  "range_tokens rng = map (\<lambda>val. py_int (py_strip val)) (py_split (CHR ''-'') rng)"

definition pos_in_range :: "int \<Rightarrow> int \<Rightarrow> row \<Rightarrow> bool" where
  \<comment> \<open>\<open>start < POS < end\<close>, false for a POS cell that is no integer\<close>
  "pos_in_range a b r = (case py_int (r ''POS'') of None \<Rightarrow> False | Some p \<Rightarrow> a < p \<and> p < b)"

definition sample_ok :: "dataframe \<Rightarrow> string option \<Rightarrow> bool" where
  \<comment> \<open>no sample is selected, or the selected sample is a column of the table\<close>
  "sample_ok df sample_name =
     (case sample_name of None \<Rightarrow> True | Some s \<Rightarrow> s = [] \<or> s \<in> set (columns df))"

definition zygosity_keys :: "string set" where
  "zygosity_keys = {''g 0/0'', ''g 0/1'', ''g 1/0'', ''g 1/1''}"

definition selection_of :: "store \<Rightarrow> nat \<Rightarrow> store \<times> nat \<Rightarrow> bool" where
  \<comment> \<open>the result \<open>(st', out)\<close> of a filter called on the object \<open>df\<close> of the store \<open>st\<close>:
      every object of \<open>st\<close>, the input among them, is in \<open>st'\<close> as it was; \<open>out\<close> is an
      object of \<open>st'\<close> with the columns of the input, whose rows are a subsequence of the
      input's rows\<close>
  "selection_of st df res =
     (case res of
        (st', out) \<Rightarrow>
          take (length st) st' = st \<and> out < length st' \<and>
          columns (st' ! out) = columns (st ! df) \<and>
          subseq (rows (st' ! out)) (rows (st ! df)))"

definition returns_selection :: "store \<Rightarrow> nat \<Rightarrow> error + store \<times> nat \<Rightarrow> bool" where
  \<comment> \<open>the filter returns, and what it returns is a selection of its input\<close>
  "returns_selection st df r = (case r of Inl e \<Rightarrow> False | Inr res \<Rightarrow> selection_of st df res)"

definition selection_if_returned :: "store \<Rightarrow> nat \<Rightarrow> error + store \<times> nat \<Rightarrow> bool" where
  \<comment> \<open>what the filter returns, when it returns, is a selection of its input\<close>
  "selection_if_returned st df r =
     (case r of Inl e \<Rightarrow> True | Inr res \<Rightarrow> selection_of st df res)"

subsection \<open>A small table for concrete checks\<close>

definition vcf_columns :: "string list" where
  "vcf_columns = [''#CHROM'', ''POS'', ''ID'', ''REF'', ''ALT'', ''QUAL'', ''FILTER'', ''INFO'',
                  ''FORMAT'', ''SAMPLE1'', ''SAMPLE2'']"

definition rec1 :: row where
  "rec1 = row_of [(''#CHROM'', ''chr1''), (''POS'', ''1000''), (''FILTER'', ''PASS''),
                  (''INFO'', ''DP=30;AF=0.7''),
                  (''SAMPLE1'', ''0/1:30,10:40''), (''SAMPLE2'', ''1/1:0,40:40'')]"

definition rec2 :: row where
  "rec2 = row_of [(''#CHROM'', ''chr2''), (''POS'', ''3000''), (''FILTER'', ''LowQual''),
                  (''INFO'', ''DP=8;AF=0.3''),
                  (''SAMPLE1'', ''0/0:40,0:40''), (''SAMPLE2'', ''./.:0,0:0'')]"

definition rec3 :: row where
  "rec3 = row_of [(''#CHROM'', ''chr3''), (''POS'', ''5000''), (''FILTER'', ''PASS''),
                  (''INFO'', ''DP=50''),
                  (''SAMPLE1'', ''1/0:20,20:40''), (''SAMPLE2'', ''0/1:25,15:40'')]"

definition vcf_table :: dataframe where
  "vcf_table = \<lparr>columns = vcf_columns, rows = [rec1, rec2, rec3]\<rparr>"

definition recX :: row where
  \<comment> \<open>a record on chromosome X, with no DP annotation\<close>
  "recX = row_of [(''#CHROM'', ''chrX''), (''POS'', ''700''), (''FILTER'', ''PASS''),
                  (''INFO'', ''AF=0.5''),
                  (''SAMPLE1'', ''0/1:30,10:40''), (''SAMPLE2'', ''0/0:40,0:40'')]"

definition rec10 :: row where
  \<comment> \<open>a record with a call on the tenth alternate allele and a triploid call\<close>
  "rec10 = row_of [(''#CHROM'', ''chr1''), (''POS'', ''900''), (''FILTER'', ''PASS''),
                  (''INFO'', ''DP=42;AF=0.5''),
                  (''SAMPLE1'', ''1/10:12,30:42''), (''SAMPLE2'', ''0/0/1:28,14:42'')]"

definition recDot :: row where
  \<comment> \<open>a record whose AF annotation is the VCF missing-value marker\<close>
  "recDot = row_of [(''#CHROM'', ''chr4''), (''POS'', ''1200''), (''FILTER'', ''PASS''),
                  (''INFO'', ''DP=20;AF=.''),
                  (''SAMPLE1'', ''0/1:30,10:40''), (''SAMPLE2'', ''0/0:40,0:40'')]"

definition recBadPos :: row where
  \<comment> \<open>a record whose POS cell is no integer\<close>
  "recBadPos = row_of [(''#CHROM'', ''chr5''), (''POS'', ''12a''), (''FILTER'', ''PASS''),
                  (''INFO'', ''DP=20;AF=0.9''),
                  (''SAMPLE1'', ''0/1:30,10:40''), (''SAMPLE2'', ''0/0:40,0:40'')]"

definition recBigChrom :: row where
  \<comment> \<open>a record whose CHROM digits denote an integer beyond the 64-bit range\<close>
  "recBigChrom = row_of [(''#CHROM'', ''chr99999999999999999999''), (''POS'', ''1500''),
                  (''FILTER'', ''PASS''), (''INFO'', ''DP=20;AF=0.5''),
                  (''SAMPLE1'', ''0/1:30,10:40''), (''SAMPLE2'', ''0/0:40,0:40'')]"

definition recBigPos :: row where
  \<comment> \<open>a record whose POS is the first integer beyond the 64-bit range\<close>
  "recBigPos = row_of [(''#CHROM'', ''chr6''), (''POS'', ''9223372036854775808''),
                  (''FILTER'', ''PASS''), (''INFO'', ''DP=20;AF=0.5''),
                  (''SAMPLE1'', ''0/1:30,10:40''), (''SAMPLE2'', ''0/0:40,0:40'')]"

subsection \<open>Selection by a mask\<close>

lemma select_filter: "map fst (filter snd (zip xs (map P xs))) = filter P xs"
  by (induction xs) auto

lemma select_subseq: "subseq (map fst (filter snd (zip xs ks))) xs"
proof (induction xs arbitrary: ks)
  case Nil
  show ?case by simp
next
  case (Cons x xs)
  show ?case
  proof (cases ks)
    case Nil
    then show ?thesis by simp
  next
    case (Cons k ks')
    with Cons.IH [of ks'] show ?thesis by (cases k) auto
  qed
qed

lemma select_rows_filter:
  "select_rows df (map Q (map f (rows df))) = df\<lparr>rows := filter (\<lambda>r. Q (f r)) (rows df)\<rparr>"
  by (simp add: select_rows_def select_filter comp_def)

lemma select_rows_subseq:
  "columns (select_rows df ks) = columns df \<and> subseq (rows (select_rows df ks)) (rows df)"
  by (simp add: select_rows_def select_subseq)

subsection \<open>Parsing the captured tokens\<close>

lemma str_extract_Some:
  "str_extract key cls s = Some tok \<Longrightarrow> tok \<noteq> [] \<and> list_all cls tok"
proof (induction s)
  case Nil
  then show ?case by simp
next
  case (Cons c cs)
  then show ?case
    by (auto split: if_splits simp: list_all_iff dest: set_takeWhileD)
qed

lemma digit_not_dot: "is_digit c \<Longrightarrow> c \<noteq> CHR ''.''"
  by (auto simp: is_digit_def)

lemma py_float_digits:
  assumes "tok \<noteq> []" "list_all is_digit tok"
  shows "py_float tok = Some (round_binary64 (digits_val tok) 1)"
proof -
  have nd: "\<forall>c\<in>set tok. c \<noteq> CHR ''.''"
    using assms(2) by (auto simp: list_all_iff dest: digit_not_dot)
  then have tw: "takeWhile (\<lambda>c. c \<noteq> CHR ''.'') tok = tok"
    and dw: "dropWhile (\<lambda>c. c \<noteq> CHR ''.'') tok = []"
    by simp_all
  have "list_all is_digit_or_dot tok"
    using assms(2) by (auto simp: list_all_iff is_digit_or_dot_def)
  with assms(1) show ?thesis
    by (simp add: py_float_def Let_def tw dw)
qed

lemma py_split_none: "sep \<notin> set s \<Longrightarrow> py_split sep s = [s]"
  by (induction s) auto

lemma py_split_nonempty: "py_split sep s \<noteq> []"
  by (induction s) (auto split: list.splits)

lemma digit_not_int_space: "is_digit c \<Longrightarrow> \<not> is_int_space c"
  by (auto simp: is_digit_def is_int_space_def)

lemma int_strip_digits:
  assumes "list_all is_digit tok"
  shows "rev (dropWhile is_int_space (rev (dropWhile is_int_space tok))) = tok"
proof (cases tok rule: rev_cases)
  case Nil
  then show ?thesis by simp
next
  case (snoc ys y)
  from assms snoc have y: "\<not> is_int_space y" by (simp add: digit_not_int_space)
  have "dropWhile is_int_space tok = tok"
  proof (cases tok)
    case Nil
    then show ?thesis by simp
  next
    case (Cons a as)
    with assms have "\<not> is_int_space a" by (simp add: digit_not_int_space)
    with Cons show ?thesis by simp
  qed
  with snoc y show ?thesis by simp
qed

lemma py_int_digits:
  assumes "tok \<noteq> []" "list_all is_digit tok" "length tok \<le> 4300"
  shows "py_int tok = Some (int (digits_val tok))"
proof -
  obtain c cs where tok: "tok = c # cs" using assms(1) by (cases tok) auto
  have c: "c \<noteq> CHR ''-''" "c \<noteq> CHR ''+''"
    using assms(2) tok by (auto simp: is_digit_def)
  have "CHR ''_'' \<notin> set tok"
    using assms(2) by (auto simp: list_all_iff is_digit_def)
  then have sp: "py_split (CHR ''_'') tok = [tok]" by (rule py_split_none)
  have st: "rev (dropWhile is_int_space (rev (dropWhile is_int_space (c # cs)))) = c # cs"
    using int_strip_digits [OF assms(2)] tok by simp
  show ?thesis
    using assms c sp unfolding py_int_def tok st by (simp add: Let_def)
qed

subsection \<open>The column conversions and the filters as selections\<close>

lemma conv_simps:
  "float_ok None" "float_ok (Some s) = (py_float s \<noteq> None)"
  "float_of None = NaN" "py_float s = Some v \<Longrightarrow> float_of (Some s) = v"
  "py_float s = None \<Longrightarrow> float_of (Some s) = NaN"
  "\<not> int_ok None"
  by (auto simp: float_ok_def float_of_def int_ok_def float_entry_def int64_entry_def
           split: option.splits)

lemma astype_float_cases:
  "astype_float xs = (if list_all float_ok xs then Inr (map float_of xs) else Inl ValueError)"
proof (induction xs)
  case Nil
  show ?case by simp
next
  case (Cons x xs)
  show ?case
  proof (cases "float_entry x")
    case (Inl e)
    then have "e = ValueError" by (auto simp: float_entry_def split: option.splits)
    with Inl show ?thesis by (simp add: float_ok_def)
  next
    case (Inr v)
    with Cons show ?thesis by (simp add: float_ok_def float_of_def)
  qed
qed

lemma astype_int_ok:
  "list_all int_ok xs \<Longrightarrow> astype_int xs = Inr (map int_of xs)"
proof (induction xs)
  case Nil
  show ?case by simp
next
  case (Cons x xs)
  then show ?case by (cases "int64_entry x") (simp_all add: int_ok_def int_of_def)
qed

lemma astype_int_Inr:
  "astype_int xs = Inr vs \<Longrightarrow> list_all int_ok xs \<and> vs = map int_of xs"
proof (induction xs arbitrary: vs)
  case Nil
  then show ?case by simp
next
  case (Cons x xs)
  then show ?case
    by (cases "int64_entry x"; cases "astype_int xs") (auto simp: int_ok_def int_of_def)
qed

lemma int_each_error: "int_each xs = Inl e \<Longrightarrow> e = ValueError"
  by (induction xs arbitrary: e) (auto split: option.splits sum.splits)

lemma dp_token_ok: "float_ok (str_extract ''DP='' is_digit s)"
proof (cases "str_extract ''DP='' is_digit s")
  case None
  then show ?thesis by (simp add: conv_simps)
next
  case (Some tok)
  then have "tok \<noteq> [] \<and> list_all is_digit tok" by (rule str_extract_Some)
  then have "py_float tok \<noteq> None" by (simp add: py_float_digits)
  with Some show ?thesis by (simp add: conv_simps)
qed

lemma chr_token_ok:
  assumes "chrom_int64 r"
  shows "int_ok (str_extract ''chr'' is_digit (r ''#CHROM''))"
proof -
  from assms obtain tok where tok: "str_extract ''chr'' is_digit (r ''#CHROM'') = Some tok"
    and len: "length tok \<le> 4300" and val: "digits_val tok < 2 ^ 63"
    by (auto simp: chrom_int64_def split: option.splits)
  from tok have "tok \<noteq> [] \<and> list_all is_digit tok" by (rule str_extract_Some)
  with len have "py_int tok = Some (int (digits_val tok))" by (simp add: py_int_digits)
  moreover from val have "int (digits_val tok) < 2 ^ 63"
    by (metis of_nat_less_iff of_nat_numeral of_nat_power)
  ultimately show ?thesis by (simp add: tok int_ok_def int64_entry_def)
qed

lemma filter_dp_rows:
  "filter_dp df dp_threshold =
     Inr (df\<lparr>rows := filter (\<lambda>r. nan_gt (dp_value r)
            (case dp_threshold of None \<Rightarrow> Finite 10
             | Some x \<Rightarrow> if x = Finite 0 then Finite 10
                         else if float_lt x (Finite 0) then Finite 10 else x)) (rows df)\<rparr>)"
proof -
  let ?toks = "map (\<lambda>r. str_extract ''DP='' is_digit (r ''INFO'')) (rows df)"
  have "list_all float_ok ?toks"
    using dp_token_ok by (simp add: list_all_iff)
  then have "astype_float ?toks = Inr (map float_of ?toks)"
    by (simp add: astype_float_cases)
  then show ?thesis
    by (simp add: filter_dp_def Let_def select_rows_def select_filter comp_def dp_value_def)
qed

lemma filter_af_rows:
  assumes "list_all af_token_ok (rows df)"
    and "float_le (Finite 0) t" "float_le t (Finite 1)"
  shows "filter_af df t = Inr (df\<lparr>rows := filter (\<lambda>r. nan_gt (af_value r) t) (rows df)\<rparr>)"
proof -
  let ?toks = "map (\<lambda>r. str_extract ''AF='' is_digit_or_dot (r ''INFO'')) (rows df)"
  have "list_all float_ok ?toks"
    using assms(1) by (simp add: list_all_iff af_token_ok_def)
  then have "astype_float ?toks = Inr (map float_of ?toks)"
    by (simp add: astype_float_cases)
  then show ?thesis using assms(2,3)
    by (simp add: filter_af_def select_rows_def select_filter comp_def af_value_def)
qed

lemma filter_af_subseq:
  "filter_af df t = Inr out \<Longrightarrow> columns out = columns df \<and> subseq (rows out) (rows df)"
  by (auto simp: filter_af_def select_rows_subseq split: if_splits sum.splits)

lemma filter_chr_subseq:
  "filter_chr df c = Inr out \<Longrightarrow> columns out = columns df \<and> subseq (rows out) (rows df)"
  by (auto simp: filter_chr_def select_rows_subseq split: sum.splits)

lemma filter_chr_rows:
  assumes "list_all chrom_int64 (rows df)"
  shows "filter_chr df c =
    Inr (df\<lparr>rows := filter (\<lambda>r. py_eq_int (int_of (str_extract ''chr'' is_digit (r ''#CHROM''))) c)
           (rows df)\<rparr>)"
proof -
  let ?toks = "map (\<lambda>r. str_extract ''chr'' is_digit (r ''#CHROM'')) (rows df)"
  have "list_all int_ok ?toks"
    using assms by (auto simp: list_all_iff intro: chr_token_ok)
  then have "astype_int ?toks = Inr (map int_of ?toks)"
    by (rule astype_int_ok)
  then show ?thesis
    by (simp add: filter_chr_def select_rows_def select_filter comp_def)
qed

lemma filter_chr_unmatched:
  assumes "\<not> list_all chrom_matches (rows df)"
  shows "\<exists>e. filter_chr df c = Inl e"
proof (cases "filter_chr df c")
  case (Inl e)
  then show ?thesis by blast
next
  case (Inr out)
  let ?toks = "map (\<lambda>r. str_extract ''chr'' is_digit (r ''#CHROM'')) (rows df)"
  from Inr obtain vs where "astype_int ?toks = Inr vs"
    by (auto simp: filter_chr_def split: sum.splits)
  then have ok: "list_all int_ok ?toks" by (auto dest: astype_int_Inr)
  from assms obtain r where "r \<in> set (rows df)"
    and "str_extract ''chr'' is_digit (r ''#CHROM'') = None"
    by (auto simp: list_all_iff chrom_matches_def)
  with ok have False by (auto simp: list_all_iff conv_simps)
  then show ?thesis ..
qed

lemma filter_dp_absent_or_negative:
  "filter_dp df None = filter_dp df (Some (Finite 10))"
  "float_lt t (Finite 0) \<Longrightarrow> filter_dp df (Some t) = filter_dp df (Some (Finite 10))"
  by (auto simp: filter_dp_rows)

lemma filter_dp_positive:
  "float_lt (Finite 0) t \<Longrightarrow>
   filter_dp df (Some t) = Inr (df\<lparr>rows := filter (\<lambda>r. nan_gt (dp_value r) t) (rows df)\<rparr>)"
  by (cases t) (auto simp: filter_dp_rows)

lemma filter_position_subseq:
  "filter_position df r = Inr out \<Longrightarrow> columns out = columns df \<and> subseq (rows out) (rows df)"
  by (auto simp: filter_position_def filter_position_try_def select_rows_subseq
           split: sum.splits if_splits error.splits)

subsection \<open>The position range\<close>

lemma int_each_tokens:
  "int_each xs =
     (if list_all (\<lambda>v. v \<noteq> None) (map (\<lambda>val. py_int (py_strip val)) xs)
      then Inr (map (\<lambda>val. the (py_int (py_strip val))) xs) else Inl ValueError)"
  by (induction xs) (auto split: option.splits)

lemma range_two:
  assumes "range_tokens rng = [Some a, Some b]"
  shows "int_each (py_split (CHR ''-'') rng) = Inr [a, b]"
proof -
  let ?xs = "py_split (CHR ''-'') rng"
  from assms have m: "map (\<lambda>val. py_int (py_strip val)) ?xs = [Some a, Some b]"
    by (simp add: range_tokens_def)
  then obtain x y where xs: "?xs = [x, y]"
    and x: "py_int (py_strip x) = Some a" and y: "py_int (py_strip y) = Some b"
    by (auto simp: map_eq_Cons_conv)
  show ?thesis by (simp add: xs x y)
qed

lemma range_not_two:
  assumes "\<not> (\<exists>a b. range_tokens rng = [Some a, Some b])"
  shows "filter_position df rng = Inr df"
proof (cases "int_each (py_split (CHR ''-'') rng)")
  case (Inl e)
  then have "e = ValueError" by (rule int_each_error)
  with Inl show ?thesis by (simp add: filter_position_def filter_position_try_def)
next
  case (Inr vs)
  have "length vs \<noteq> 2"
  proof
    assume len: "length vs = 2"
    let ?xs = "py_split (CHR ''-'') rng"
    from Inr have ok: "list_all (\<lambda>v. v \<noteq> None) (map (\<lambda>val. py_int (py_strip val)) ?xs)"
      and vs: "vs = map (\<lambda>val. the (py_int (py_strip val))) ?xs"
      by (auto simp: int_each_tokens split: if_splits)
    from len vs obtain x y where xs: "?xs = [x, y]"
      by (auto simp: length_Suc_conv numeral_2_eq_2)
    from ok xs obtain a b where "py_int (py_strip x) = Some a" "py_int (py_strip y) = Some b"
      by auto
    with xs have "range_tokens rng = [Some a, Some b]" by (simp add: range_tokens_def)
    with assms show False by blast
  qed
  with Inr show ?thesis by (simp add: filter_position_def filter_position_try_def)
qed

lemma filter_position_rows:
  assumes "range_tokens rng = [Some a, Some b]"
    and "list_all (\<lambda>r. int_ok (Some (r ''POS''))) (rows df)"
  shows "filter_position df rng = Inr (df\<lparr>rows := filter (pos_in_range a b) (rows df)\<rparr>)"
proof -
  let ?ps = "map (\<lambda>r. Some (r ''POS'')) (rows df)"
  have "list_all int_ok ?ps"
    using assms(2) by (simp add: list_all_iff)
  then have ps: "astype_int ?ps = Inr (map int_of ?ps)"
    by (rule astype_int_ok)
  have sel: "filter (\<lambda>r. a < int_of (Some (r ''POS'')) \<and> int_of (Some (r ''POS'')) < b) (rows df)
      = filter (pos_in_range a b) (rows df)"
    using assms(2)
    by (intro filter_cong)
       (auto simp: list_all_iff pos_in_range_def int_ok_def int_of_def int64_entry_def
             split: option.splits if_splits)
  show ?thesis
    by (simp add: filter_position_def filter_position_try_def range_two [OF assms(1)] ps
          select_rows_def select_filter comp_def sel)
qed

subsection \<open>The filters on references\<close>

lemma new_frame_selection:
  assumes "df < length st" "columns d = columns (st ! df)" "subseq (rows d) (rows (st ! df))"
  shows "selection_of st df (new_frame st d)"
  using assms by (simp add: selection_of_def new_frame_def nth_append)

lemma same_ref_selection: "df < length st \<Longrightarrow> selection_of st df (st, df)"
  by (simp add: selection_of_def)

lemma filter_dp_ref_selection:
  "df < length st \<Longrightarrow> returns_selection st df (filter_dp_ref st df dp)"
  by (simp add: returns_selection_def filter_dp_ref_def filter_dp_rows new_frame_selection)

lemma lift_selection:
  assumes "df < length st"
    and "\<And>d. f = Inr d \<Longrightarrow> columns d = columns (st ! df) \<and> subseq (rows d) (rows (st ! df))"
  shows "selection_if_returned st df (case f of Inl e \<Rightarrow> Inl e | Inr d \<Rightarrow> Inr (new_frame st d))"
proof (cases f)
  case (Inl e)
  then show ?thesis by (simp add: selection_if_returned_def)
next
  case (Inr d)
  with assms(2) have "columns d = columns (st ! df) \<and> subseq (rows d) (rows (st ! df))"
    by blast
  with assms(1) have "selection_of st df (new_frame st d)"
    by (simp add: new_frame_selection)
  with Inr show ?thesis by (simp add: selection_if_returned_def)
qed

lemma same_ref_returned: "df < length st \<Longrightarrow> selection_if_returned st df (Inr (st, df))"
  by (simp add: selection_if_returned_def same_ref_selection)

lemma filter_af_ref_selection:
  assumes "df < length st"
  shows "selection_if_returned st df (filter_af_ref st df af)"
proof (cases "float_le (Finite 0) af \<and> float_le af (Finite 1)")
  case True
  have "selection_if_returned st df
      (case filter_af (st ! df) af of Inl e \<Rightarrow> Inl e | Inr d \<Rightarrow> Inr (new_frame st d))"
    using assms filter_af_subseq by (rule lift_selection)
  with True show ?thesis by (simp add: filter_af_ref_def)
next
  case False
  with assms show ?thesis by (auto simp: filter_af_ref_def same_ref_returned)
qed

lemma filter_chr_ref_selection:
  assumes "df < length st"
  shows "selection_if_returned st df (filter_chr_ref st df chr)"
  unfolding filter_chr_ref_def using assms filter_chr_subseq by (rule lift_selection)

lemma filter_position_ref_selection:
  assumes "df < length st"
  shows "selection_if_returned st df (filter_position_ref st df rng)"
proof (cases "int_each (py_split (CHR ''-'') rng)")
  case (Inl e)
  with assms show ?thesis
    by (cases e) (simp_all add: filter_position_ref_def same_ref_selection selection_if_returned_def)
next
  case rng: (Inr vs)
  show ?thesis
  proof (cases "length vs = 2")
    case False
    with rng assms show ?thesis by (simp add: filter_position_ref_def same_ref_returned)
  next
    case True
    show ?thesis
    proof (cases "astype_int (map (\<lambda>r. Some (r ''POS'')) (rows (st ! df)))")
      case (Inl e)
      with rng True assms show ?thesis
        by (cases e)
           (simp_all add: filter_position_ref_def same_ref_selection selection_if_returned_def)
    next
      case (Inr ps)
      let ?d = "select_rows (st ! df) (map (\<lambda>p. vs ! 0 < p \<and> p < vs ! 1) ps)"
      have "selection_of st df (new_frame st ?d)"
        using assms select_rows_subseq [of "st ! df"] by (simp add: new_frame_selection)
      with rng True Inr show ?thesis
        by (simp add: filter_position_ref_def selection_if_returned_def)
    qed
  qed
qed

lemma include_filter_ref_selection:
  "df < length st \<Longrightarrow> returns_selection st df (include_filter_ref st df v)"
  by (simp add: returns_selection_def include_filter_ref_def include_filter_def
        new_frame_selection select_rows_subseq)

lemma exclude_filter_ref_selection:
  "df < length st \<Longrightarrow> returns_selection st df (exclude_filter_ref st df v)"
  by (simp add: returns_selection_def exclude_filter_ref_def exclude_filter_def
        new_frame_selection select_rows_subseq)

text \<open>The filters on references return the tables, and raise the errors, of the filters.\<close>

lemma filter_ref_frames:
  assumes "df < length st"
  shows "map_sum id (\<lambda>(st', out). st' ! out) (filter_dp_ref st df dp) = filter_dp (st ! df) dp"
    and "map_sum id (\<lambda>(st', out). st' ! out) (filter_af_ref st df af) = filter_af (st ! df) af"
    and "map_sum id (\<lambda>(st', out). st' ! out) (filter_chr_ref st df chr) = filter_chr (st ! df) chr"
    and "map_sum id (\<lambda>(st', out). st' ! out) (filter_position_ref st df rng)
           = filter_position (st ! df) rng"
    and "map_sum id (\<lambda>(st', out). st' ! out) (include_filter_ref st df v)
           = Inr (include_filter (st ! df) v)"
    and "map_sum id (\<lambda>(st', out). st' ! out) (exclude_filter_ref st df v)
           = Inr (exclude_filter (st ! df) v)"
  using assms
  by (auto simp: filter_dp_ref_def filter_af_ref_def filter_chr_ref_def filter_position_ref_def
        include_filter_ref_def exclude_filter_ref_def new_frame_def filter_af_def
        filter_position_def filter_position_try_def
      split: sum.splits error.splits)

subsection \<open>The count map\<close>

lemma count_cells_nonneg: "0 \<le> count_cells pat df cols"
  unfolding count_cells_def by (intro sum_list_nonneg) (auto intro!: sum_list_nonneg)

lemma count_cells_no_rows: "rows df = [] \<Longrightarrow> count_cells pat df cols = 0"
  by (simp add: count_cells_def)

lemma variants_of_dom: "dom (variants_of df cols) = zygosity_keys"
  by (auto simp: variants_of_def zygosity_keys_def)

lemma variants_of_values:
  assumes "k \<in> zygosity_keys"
  shows "\<exists>n. variants_of df cols k = Some n \<and> 0 \<le> n \<and> (rows df = [] \<longrightarrow> n = 0)"
  using assms
  by (auto simp: variants_of_def zygosity_keys_def count_cells_nonneg count_cells_no_rows)

subsection \<open>Values on the small table\<close>

lemmas eval_defs = rec1_def rec2_def rec3_def recX_def rec10_def recDot_def recBadPos_def
  recBigChrom_def recBigPos_def vcf_table_def vcf_columns_def row_of_def
  is_digit_def is_digit_or_dot_def is_space_def is_int_space_def py_strip_def py_int_def
  py_float_def digits_val_def digit_val_def Let_def

lemmas round_defs = round_binary64_def binary_exponent_def bit_length.simps Let_def

lemma roundings:
  "round_binary64 30 1 = Finite 30" "round_binary64 8 1 = Finite 8"
  "round_binary64 50 1 = Finite 50"
  "round_binary64 7 10 = Finite (3152519739159347 / 4503599627370496)"
  "round_binary64 3 10 = Finite (5404319552844595 / 18014398509481984)"
  "round_binary64 50000000000000001 100000000000000000 = Finite (1 / 2)"
  "round_binary64 9007199254740993 1 = Finite 9007199254740992"
  "round_binary64 9007199254740995 1 = Finite 9007199254740996"
  "round_binary64 1 10 = Finite (3602879701896397 / 36028797018963968)"
  "round_binary64 30 (Suc 0) = Finite 30" "round_binary64 8 (Suc 0) = Finite 8"
  "round_binary64 50 (Suc 0) = Finite 50"
  "round_binary64 9007199254740993 (Suc 0) = Finite 9007199254740992"
  by (simp_all add: round_defs)

lemma float_tokens:
  "py_float ''30'' = Some (round_binary64 30 1)" "py_float ''8'' = Some (round_binary64 8 1)"
  "py_float ''50'' = Some (round_binary64 50 1)"
  "py_float ''0.7'' = Some (round_binary64 7 10)"
  "py_float ''0.3'' = Some (round_binary64 3 10)"
  "py_float ''0.50000000000000001''
     = Some (round_binary64 50000000000000001 100000000000000000)"
  "py_float ''9007199254740993'' = Some (round_binary64 9007199254740993 1)"
  "py_float ''.'' = None"
  by (simp_all add: eval_defs)

lemma dp_tokens:
  "str_extract ''DP='' is_digit (rec1 ''INFO'') = Some ''30''"
  "str_extract ''DP='' is_digit (rec2 ''INFO'') = Some ''8''"
  "str_extract ''DP='' is_digit (rec3 ''INFO'') = Some ''50''"
  "str_extract ''DP='' is_digit (recX ''INFO'') = None"
  by (simp_all add: eval_defs)

lemma dp_floats:
  "py_float ''30'' = Some (Finite 30)" "py_float ''8'' = Some (Finite 8)"
  "py_float ''50'' = Some (Finite 50)"
  by (simp_all add: float_tokens roundings)

lemma dp_values:
  "dp_value rec1 = Finite 30" "dp_value rec2 = Finite 8" "dp_value rec3 = Finite 50"
  "dp_value recX = NaN"
  by (simp_all add: dp_value_def dp_tokens dp_floats conv_simps)

lemma chr_tokens:
  "str_extract ''chr'' is_digit (rec1 ''#CHROM'') = Some ''1''"
  "str_extract ''chr'' is_digit (rec2 ''#CHROM'') = Some ''2''"
  "str_extract ''chr'' is_digit (rec3 ''#CHROM'') = Some ''3''"
  "str_extract ''chr'' is_digit (recX ''#CHROM'') = None"
  "str_extract ''chr'' is_digit (recBigChrom ''#CHROM'') = Some ''99999999999999999999''"
  by (simp_all add: eval_defs)

lemma chr_ints:
  "int64_entry (Some ''1'') = Inr 1" "int64_entry (Some ''2'') = Inr 2"
  "int64_entry (Some ''3'') = Inr 3" "int64_entry None = Inl ValueError"
  "int64_entry (Some ''99999999999999999999'') = Inl OverflowError"
  by (simp_all add: int64_entry_def eval_defs)

lemma chrom_rows:
  "chrom_int64 rec1" "chrom_int64 rec2" "chrom_int64 rec3"
  "chrom_matches recBigChrom" "\<not> chrom_int64 recBigChrom"
  by (simp_all add: chrom_int64_def chrom_matches_def chr_tokens digits_val_def digit_val_def)

lemma af_tokens:
  "str_extract ''AF='' is_digit_or_dot (rec1 ''INFO'') = Some ''0.7''"
  "str_extract ''AF='' is_digit_or_dot (rec2 ''INFO'') = Some ''0.3''"
  "str_extract ''AF='' is_digit_or_dot (rec3 ''INFO'') = None"
  "str_extract ''AF='' is_digit_or_dot (recDot ''INFO'') = Some ''.''"
  by (simp_all add: eval_defs)

lemma af_floats:
  "py_float ''0.7'' = Some (Finite (3152519739159347 / 4503599627370496))"
  "py_float ''0.3'' = Some (Finite (5404319552844595 / 18014398509481984))"
  "py_float ''.'' = None"
  by (simp_all add: float_tokens roundings)

lemma af_values:
  "af_value rec1 = Finite (3152519739159347 / 4503599627370496)"
  "af_value rec2 = Finite (5404319552844595 / 18014398509481984)"
  "af_value rec3 = NaN" "af_value recDot = NaN"
  by (simp_all add: af_value_def af_tokens af_floats conv_simps)

lemma af_oks:
  "af_token_ok rec1" "af_token_ok rec2" "af_token_ok rec3" "\<not> af_token_ok recDot"
  by (simp_all add: af_token_ok_def af_tokens af_floats conv_simps)

lemma py_float_rounds:
  "py_float ''0.50000000000000001'' = Some (Finite (1 / 2))"
  "py_float ''9007199254740993'' = Some (Finite 9007199254740992)"
  by (simp_all add: float_tokens roundings)

lemma pos_ints:
  "int64_entry (Some (rec1 ''POS'')) = Inr 1000" "int64_entry (Some (rec2 ''POS'')) = Inr 3000"
  "int64_entry (Some (rec3 ''POS'')) = Inr 5000"
  "int64_entry (Some (recBadPos ''POS'')) = Inl ValueError"
  "int64_entry (Some (recBigPos ''POS'')) = Inl OverflowError"
  by (simp_all add: int64_entry_def eval_defs)

lemma pos_values:
  "py_int (rec1 ''POS'') = Some 1000" "py_int (rec2 ''POS'') = Some 3000"
  "py_int (rec3 ''POS'') = Some 5000" "py_int (recBadPos ''POS'') = None"
  by (simp_all add: eval_defs)

lemma int_whitespace:
  "py_int [CHR 0x1F, CHR ''1'', CHR ''5'', CHR ''0'', CHR ''0''] = None"
  "py_int (py_strip [CHR 0x1F, CHR ''1'', CHR ''5'', CHR ''0'', CHR ''0'']) = Some 1500"
  "py_int '' 1500 '' = Some 1500"
  by (simp_all add: eval_defs)

lemma range_examples:
  "range_tokens ''500-2000'' = [Some 500, Some 2000]"
  "range_tokens ''1000-5000'' = [Some 1000, Some 5000]"
  "range_tokens '' 1000 - 5000 '' = [Some 1000, Some 5000]"
  "range_tokens ''abc-5000'' = [None, Some 5000]"
  "range_tokens ''1-2-3'' = [Some 1, Some 2, Some 3]"
  by (simp_all add: range_tokens_def eval_defs)

lemma token_ints:
  "py_int (py_strip ''500'') = Some 500" "py_int (py_strip ''2000'') = Some 2000"
  "py_int (py_strip ''1000'') = Some 1000" "py_int (py_strip ''5000'') = Some 5000"
  "py_int (py_strip ''1'') = Some 1" "py_int (py_strip ''2'') = Some 2"
  "py_int (py_strip ''3'') = Some 3"
  by (simp_all add: eval_defs)

lemma pos_ranges:
  "pos_in_range 500 2000 rec1" "\<not> pos_in_range 500 2000 rec2"
  "\<not> pos_in_range 500 2000 recBadPos"
  "\<not> pos_in_range 1000 5000 rec1" "pos_in_range 1000 5000 rec2"
  "\<not> pos_in_range 1000 5000 rec3"
  by (simp_all add: pos_in_range_def pos_values)

lemma filter_af_zero:
  "filter_af vcf_table (Finite 0) = Inr (vcf_table\<lparr>rows := [rec1, rec2]\<rparr>)"
  by (simp add: filter_af_rows vcf_table_def af_oks af_values nan_gt_def float_le_def)

lemma vcf_table_counts:
  "\<exists>d m. calc_zygosity vcf_table None = Inr (d, m) \<and> m ''g 0/0'' = Some 1 \<and>
      m ''g 0/1'' = Some 2 \<and> m ''g 1/0'' = Some 1 \<and> m ''g 1/1'' = Some 1"
  by (simp add: calc_zygosity_def variants_of_def count_cells_def first_field_def eval_defs)

lemma filter_position_in_range:
  "filter_position vcf_table ''1000-5000'' = Inr (vcf_table\<lparr>rows := [rec2]\<rparr>)"
  "filter_position vcf_table ''abc-5000'' = Inr vcf_table"
  "filter_position vcf_table ''1-2-3'' = Inr vcf_table"
proof -
  have ok: "list_all (\<lambda>r. int_ok (Some (r ''POS''))) (rows vcf_table)"
    by (simp add: vcf_table_def int_ok_def pos_ints)
  have "filter (pos_in_range 1000 5000) (rows vcf_table) = [rec2]"
    by (simp add: vcf_table_def pos_ranges)
  with filter_position_rows [OF range_examples(2) ok]
  show "filter_position vcf_table ''1000-5000'' = Inr (vcf_table\<lparr>rows := [rec2]\<rparr>)"
    by simp
  show "filter_position vcf_table ''abc-5000'' = Inr vcf_table"
    by (rule range_not_two) (simp add: range_examples)
  show "filter_position vcf_table ''1-2-3'' = Inr vcf_table"
    by (rule range_not_two) (simp add: range_examples)
qed

section \<open>The claims\<close>

subsection \<open>C1: which genotype cells are counted\<close>

text \<open>
  C1 says that a cell is counted for a class only when the first \<^verbatim>\<open>:\<close>-separated field is
  literally one of \<^verbatim>\<open>0/0\<close>, \<^verbatim>\<open>0/1\<close>, \<^verbatim>\<open>1/0\<close>, \<^verbatim>\<open>1/1\<close>, and that any other
  first field contributes to no count. The code tests \<^verbatim>\<open>'1/1' in x.split(':')[0]\<close>, a
  substring test. On a row whose two sample cells have the first fields \<^verbatim>\<open>1/10\<close> and
  \<^verbatim>\<open>0/0/1\<close>, neither of them canonical, the code counts one \<^verbatim>\<open>1/1\<close>, one
  \<^verbatim>\<open>0/1\<close> and one \<^verbatim>\<open>0/0\<close>: three counts from two cells.
\<close>

theorem calc_zygosity_substring_count:
  "first_field (rec10 ''SAMPLE1'') = ''1/10'' \<and> first_field (rec10 ''SAMPLE2'') = ''0/0/1'' \<and>
   (\<exists>d m. calc_zygosity \<lparr>columns = vcf_columns, rows = [rec10]\<rparr> None = Inr (d, m) \<and>
      m ''g 1/1'' = Some 1 \<and> m ''g 1/0'' = Some 0 \<and> m ''g 0/1'' = Some 1 \<and>
      m ''g 0/0'' = Some 1)"
  by (simp add: calc_zygosity_def variants_of_def count_cells_def first_field_def eval_defs)

subsection \<open>C2: rows whose field does not match the numeric pattern\<close>

text \<open>
  C2 says that each of the Depth, AlleleFrequency and Chromosome filters only excludes a row
  whose INFO or CHROM cell does not match the pattern, and never raises. The Depth filter
  does so (a row without \<^verbatim>\<open>DP=\<close> is dropped), but the Chromosome filter converts the
  extracted column with \<^verbatim>\<open>astype(int)\<close>, which cannot convert the NaN of a row that
  does not match: on a table holding a \<^verbatim>\<open>chrX\<close> row it raises ValueError for the whole
  table.
\<close>

theorem filter_chr_raises_on_chrX:
  "filter_chr \<lparr>columns = vcf_columns, rows = [rec1, recX]\<rparr> (PyInt 1) = Inl ValueError \<and>
   filter_dp \<lparr>columns = vcf_columns, rows = [rec1, recX]\<rparr> (Some (Finite 5))
     = Inr \<lparr>columns = vcf_columns, rows = [rec1]\<rparr>"
  by (simp add: filter_dp_rows dp_values nan_gt_def filter_chr_def chr_tokens chr_ints)

subsection \<open>C3: the depth threshold\<close>

text \<open>
  C3 says that an absent or negative threshold is replaced by 10, and that a supplied,
  non-negative threshold \<open>t\<close> keeps exactly the rows with DP greater than \<open>t\<close>. The
  guard \<^verbatim>\<open>if not dp_threshold\<close> also holds for the supplied threshold 0, so the filter
  with threshold 0 is the filter with threshold 10: on the small table (DP 30, 8, 50) it
  drops the row with DP 8, which is greater than 0.
\<close>

theorem filter_dp_zero_threshold:
  "filter_dp df (Some (Finite 0)) = filter_dp df (Some (Finite 10)) \<and>
   filter_dp vcf_table (Some (Finite 0)) = Inr (vcf_table\<lparr>rows := [rec1, rec3]\<rparr>) \<and>
   filter (\<lambda>r. nan_gt (dp_value r) (Finite 0)) (rows vcf_table) = [rec1, rec2, rec3]"
  by (simp add: filter_dp_rows dp_values nan_gt_def vcf_table_def)

subsection \<open>C4: a chromosome given as a string\<close>

text \<open>
  C4 says that on a table whose CHROM cells all match \<^verbatim>\<open>chr<int>\<close>, the Chromosome
  filter with a string parameter returns the empty table. \<^verbatim>\<open>astype(int)\<close> converts to
  the 64-bit integer type, so a CHROM cell whose digits denote a larger integer matches the
  pattern and makes the filter raise OverflowError instead.
\<close>

theorem filter_chr_string_overflow:
  "list_all chrom_matches [rec1, recBigChrom] \<and>
   filter_chr \<lparr>columns = vcf_columns, rows = [rec1, recBigChrom]\<rparr> (PyStr ''2'')
     = Inl OverflowError \<and>
   filter_chr \<lparr>columns = vcf_columns, rows = [rec1, recBigChrom]\<rparr> (PyStr ''2'')
     \<noteq> Inr \<lparr>columns = vcf_columns, rows = []\<rparr>"
  by (simp add: filter_chr_def chr_tokens chr_ints chrom_matches_def)

text \<open>
  C4, amended: on a table whose CHROM cells all match \<^verbatim>\<open>chr<int>\<close> with an integer of
  the 64-bit signed range (written with at most 4300 digits), the Chromosome filter with a
  string parameter returns the empty table, because the extracted integer is never equal
  to a string.
\<close>

theorem filter_chr_string_empty:
  assumes "list_all chrom_int64 (rows df)"
  shows "filter_chr df (PyStr s) = Inr (df\<lparr>rows := []\<rparr>)"
  using assms by (simp add: filter_chr_rows)

theorem filter_chr_string_empty_witness:
  "list_all chrom_int64 (rows vcf_table) \<and>
   filter_chr vcf_table (PyStr ''2'') = Inr (vcf_table\<lparr>rows := []\<rparr>)"
proof -
  have h: "list_all chrom_int64 (rows vcf_table)"
    by (simp add: vcf_table_def chrom_rows)
  show ?thesis using h filter_chr_string_empty [OF h, of "''2''"] by simp
qed

subsection \<open>C5: the allele-frequency threshold\<close>

text \<open>
  C5 says that a threshold outside \<open>[0, 1]\<close> leaves the table as it is, and that a threshold
  inside keeps exactly the rows whose extracted AF value is greater. The pattern
  \<^verbatim>\<open>AF=([\d.]+)\<close> also captures tokens that are no float literal, such as the VCF
  missing-value marker \<^verbatim>\<open>.\<close>, and \<^verbatim>\<open>astype(float)\<close> then raises ValueError for
  the whole table: with the threshold 0.5 and the AF annotations \<^verbatim>\<open>0.7\<close> and \<^verbatim>\<open>.\<close>
  the filter returns no table, where C5 has it keep the row with AF 0.7.
\<close>

theorem filter_af_malformed_token:
  "filter_af \<lparr>columns = vcf_columns, rows = [rec1, recDot]\<rparr> (Finite (1 / 2)) = Inl ValueError \<and>
   filter_af \<lparr>columns = vcf_columns, rows = [rec1, recDot]\<rparr> (Finite (1 / 2))
     \<noteq> Inr \<lparr>columns = vcf_columns,
             rows = filter (\<lambda>r. nan_gt (af_value r) (Finite (1 / 2))) [rec1, recDot]\<rparr> \<and>
   filter (\<lambda>r. nan_gt (af_value r) (Finite (1 / 2))) [rec1, recDot] = [rec1]"
  by (simp add: filter_af_def astype_float_cases af_tokens af_floats conv_simps af_values
        nan_gt_def float_le_def)

subsection \<open>C6: the position range\<close>

text \<open>
  C6 says that a range string with exactly two integer tokens keeps exactly the rows with
  \<open>start < POS < end\<close>, and that any other range string leaves the table as it is. The
  conversion \<^verbatim>\<open>df.POS.astype(int)\<close> stands inside the same \<^verbatim>\<open>try\<close> block as the
  parsing of the range, so a POS cell that is no integer raises a ValueError that the
  \<^verbatim>\<open>except\<close> clause, written for the range string, catches: with the well-formed range
  \<^verbatim>\<open>500-2000\<close> and the POS cells 1000, 3000 and \<^verbatim>\<open>12a\<close> the table comes back
  unchanged, where C6 has it keep the one row in range.
\<close>

theorem filter_position_malformed_pos:
  "range_tokens ''500-2000'' = [Some 500, Some 2000] \<and>
   filter_position \<lparr>columns = vcf_columns, rows = [rec1, rec2, recBadPos]\<rparr> ''500-2000''
     = Inr \<lparr>columns = vcf_columns, rows = [rec1, rec2, recBadPos]\<rparr> \<and>
   filter (pos_in_range 500 2000) [rec1, rec2, recBadPos] = [rec1] \<and>
   filter_position \<lparr>columns = vcf_columns, rows = [rec1, rec2, recBadPos]\<rparr> ''500-2000''
     \<noteq> Inr \<lparr>columns = vcf_columns,
             rows = filter (pos_in_range 500 2000) [rec1, rec2, recBadPos]\<rparr>"
  by (simp add: filter_position_def filter_position_try_def token_ints range_examples
        pos_ints pos_ranges)

subsection \<open>C7: the count map\<close>

text \<open>
  C7 says that for every table the counter returns a map with exactly the four class keys,
  each with a non-negative count, and all four zero on a table without rows. With a sample
  name that is no column of the table, \<^verbatim>\<open>df[[sample_name]]\<close> raises KeyError before any
  count is made, also on a table without rows. First that failure, then C7 as amended.
\<close>

theorem calc_zygosity_unknown_sample:
  "calc_zygosity (vcf_table\<lparr>rows := []\<rparr>) (Some ''SAMPLE3'') = Inl KeyError"
  by (simp add: calc_zygosity_def vcf_table_def vcf_columns_def Let_def)

text \<open>
  C7, amended: for every table (also one without rows), when no sample is selected or the
  selected sample is a column of the table, the counter returns a map whose keys are
  exactly the four class keys, each mapped to a non-negative integer, and to zero when the
  table has no rows.
\<close>

theorem calc_zygosity_countmap:
  assumes "sample_ok df sample_name"
  shows "\<exists>d m. calc_zygosity df sample_name = Inr (d, m) \<and> dom m = zygosity_keys \<and>
           (\<forall>k\<in>zygosity_keys. \<exists>n. m k = Some n \<and> 0 \<le> n \<and> (rows df = [] \<longrightarrow> n = 0))"
proof (cases "sample_name = None \<or> sample_name = Some []")
  case True
  then have "calc_zygosity df sample_name
      = Inr (df, variants_of df (filter (prefix ''SAMPLE'') (columns df)))"
    by (auto simp: calc_zygosity_def)
  then show ?thesis
    using variants_of_dom variants_of_values by blast
next
  case False
  then obtain s where s: "sample_name = Some s" "s \<noteq> []" by auto
  with assms have mem: "s \<in> set (columns df)" by (simp add: sample_ok_def)
  define df' where "df' = df\<lparr>columns :=
      filter (\<lambda>c. c \<notin> set (filter (\<lambda>c. prefix ''SAMPLE'' c \<and> c \<noteq> s) (columns df)))
        (columns df)\<rparr>"
  have r: "rows df' = rows df" by (simp add: df'_def)
  from mem have "calc_zygosity df sample_name = Inr (df', variants_of df' [s])"
    by (simp add: calc_zygosity_def s df'_def Let_def)
  then show ?thesis
    using variants_of_dom [of df' "[s]"] variants_of_values [of _ df' "[s]"] r by metis
qed

theorem calc_zygosity_countmap_witness:
  "sample_ok vcf_table (Some ''SAMPLE2'') \<and>
   (\<exists>d m. calc_zygosity vcf_table (Some ''SAMPLE2'') = Inr (d, m) \<and> dom m = zygosity_keys) \<and>
   sample_ok (vcf_table\<lparr>rows := []\<rparr>) None \<and>
   (\<exists>d m. calc_zygosity (vcf_table\<lparr>rows := []\<rparr>) None = Inr (d, m) \<and> m ''g 0/0'' = Some 0 \<and>
      m ''g 0/1'' = Some 0 \<and> m ''g 1/0'' = Some 0 \<and> m ''g 1/1'' = Some 0)"
proof -
  have h1: "sample_ok vcf_table (Some ''SAMPLE2'')"
    by (simp add: sample_ok_def vcf_table_def vcf_columns_def)
  have h2: "sample_ok (vcf_table\<lparr>rows := []\<rparr>) None"
    by (simp add: sample_ok_def)
  have k: "''g 0/0'' \<in> zygosity_keys" "''g 0/1'' \<in> zygosity_keys"
    "''g 1/0'' \<in> zygosity_keys" "''g 1/1'' \<in> zygosity_keys"
    by (simp_all add: zygosity_keys_def)
  from calc_zygosity_countmap [OF h1]
  have a: "\<exists>d m. calc_zygosity vcf_table (Some ''SAMPLE2'') = Inr (d, m) \<and> dom m = zygosity_keys"
    by blast
  from calc_zygosity_countmap [OF h2] obtain d m
    where c: "calc_zygosity (vcf_table\<lparr>rows := []\<rparr>) None = Inr (d, m)"
      and v: "\<forall>k\<in>zygosity_keys. \<exists>n. m k = Some n \<and> 0 \<le> n \<and>
               (rows (vcf_table\<lparr>rows := []\<rparr>) = [] \<longrightarrow> n = 0)"
    by blast
  from v k have "m ''g 0/0'' = Some 0 \<and> m ''g 0/1'' = Some 0 \<and> m ''g 1/0'' = Some 0 \<and>
      m ''g 1/1'' = Some 0"
    by auto
  with c have b: "\<exists>d m. calc_zygosity (vcf_table\<lparr>rows := []\<rparr>) None = Inr (d, m) \<and>
      m ''g 0/0'' = Some 0 \<and> m ''g 0/1'' = Some 0 \<and> m ''g 1/0'' = Some 0 \<and> m ''g 1/1'' = Some 0"
    by blast
  from h1 a h2 b show ?thesis by blast
qed

subsection \<open>C8: including a FILTER value twice\<close>

text \<open>
  C8: for every table and every FILTER value \<open>v\<close>, applying \<^const>\<open>include_filter\<close> with
  \<open>v\<close> to its own result gives the same table as applying it once.
\<close>

theorem include_filter_idem:
  "include_filter (include_filter df v) v = include_filter df v"
  by (simp add: include_filter_def select_rows_def select_filter)

subsection \<open>C9: the filters are order-preserving selections\<close>

text \<open>
  C9 says that every one of the six filters returns an order-preserving selection of its
  input and does not mutate the input. A filter that raises returns no table: the
  PositionRange filter with a well-formed range raises OverflowError on a table holding a
  POS beyond the 64-bit range, which \<^verbatim>\<open>except ValueError\<close> does not catch.
\<close>

theorem filter_position_no_selection:
  "filter_position_ref [\<lparr>columns = vcf_columns, rows = [rec1, recBigPos]\<rparr>] 0 ''500-2000''
     = Inl OverflowError \<and>
   \<not> returns_selection [\<lparr>columns = vcf_columns, rows = [rec1, recBigPos]\<rparr>] 0
       (filter_position_ref [\<lparr>columns = vcf_columns, rows = [rec1, recBigPos]\<rparr>] 0 ''500-2000'')"
  by (simp add: filter_position_ref_def returns_selection_def token_ints pos_ints)

text \<open>
  C9, amended: every table that one of the six filters returns is an order-preserving
  selection of its input: it has the columns of the input, its rows are a subsequence of
  the input's rows (the same rows in their original relative order, none changed, added or
  re-sorted), and the input table, like every other table that existed before the call, is
  after the call what it was before. The Depth, IncludeFilterColumn and
  ExcludeFilterColumn filters return such a table on every input.
\<close>

theorem filters_order_preserving:
  assumes "df < length st"
  shows "returns_selection st df (filter_dp_ref st df dp) \<and>
         selection_if_returned st df (filter_af_ref st df af) \<and>
         selection_if_returned st df (filter_chr_ref st df chr) \<and>
         selection_if_returned st df (filter_position_ref st df rng) \<and>
         returns_selection st df (include_filter_ref st df v) \<and>
         returns_selection st df (exclude_filter_ref st df v)"
  using assms
  by (simp add: filter_dp_ref_selection filter_af_ref_selection filter_chr_ref_selection
        filter_position_ref_selection include_filter_ref_selection exclude_filter_ref_selection)

theorem filters_order_preserving_witness:
  "filter_af_ref [vcf_table] 0 (Finite (1 / 4))
     = Inr ([vcf_table, vcf_table\<lparr>rows := [rec1, rec2]\<rparr>], 1) \<and>
   selection_of [vcf_table] 0 ([vcf_table, vcf_table\<lparr>rows := [rec1, rec2]\<rparr>], 1) \<and>
   filter_chr_ref [vcf_table] 0 (PyInt 3)
     = Inr ([vcf_table, vcf_table\<lparr>rows := [rec3]\<rparr>], 1) \<and>
   selection_of [vcf_table] 0 ([vcf_table, vcf_table\<lparr>rows := [rec3]\<rparr>], 1) \<and>
   filter_position_ref [vcf_table] 0 ''1000-5000''
     = Inr ([vcf_table, vcf_table\<lparr>rows := [rec2]\<rparr>], 1) \<and>
   selection_of [vcf_table] 0 ([vcf_table, vcf_table\<lparr>rows := [rec2]\<rparr>], 1) \<and>
   filter_position_ref [vcf_table] 0 ''1-2-3'' = Inr ([vcf_table], 0) \<and>
   selection_of [vcf_table] 0 ([vcf_table], 0)"
proof -
  have h: "(0::nat) < length [vcf_table]" by simp
  have a: "filter_af_ref [vcf_table] 0 (Finite (1 / 4))
      = Inr ([vcf_table, vcf_table\<lparr>rows := [rec1, rec2]\<rparr>], 1)"
    by (simp add: filter_af_ref_def new_frame_def filter_af_rows vcf_table_def af_oks af_values
          nan_gt_def float_le_def)
  have c: "filter_chr_ref [vcf_table] 0 (PyInt 3)
      = Inr ([vcf_table, vcf_table\<lparr>rows := [rec3]\<rparr>], 1)"
    by (simp add: filter_chr_ref_def new_frame_def filter_chr_def vcf_table_def chr_tokens
          chr_ints select_rows_def)
  have p: "filter_position_ref [vcf_table] 0 ''1000-5000''
      = Inr ([vcf_table, vcf_table\<lparr>rows := [rec2]\<rparr>], 1)"
    by (simp add: filter_position_ref_def new_frame_def token_ints vcf_table_def pos_ints
          select_rows_def)
  have q: "filter_position_ref [vcf_table] 0 ''1-2-3'' = Inr ([vcf_table], 0)"
    by (simp add: filter_position_ref_def token_ints)
  from filters_order_preserving [OF h, of None "Finite (1 / 4)" "PyInt 3" "''1000-5000''" "[]"]
  have "selection_if_returned [vcf_table] 0 (filter_af_ref [vcf_table] 0 (Finite (1 / 4)))"
    and "selection_if_returned [vcf_table] 0 (filter_chr_ref [vcf_table] 0 (PyInt 3))"
    and "selection_if_returned [vcf_table] 0 (filter_position_ref [vcf_table] 0 ''1000-5000'')"
    by simp_all
  moreover from filters_order_preserving [OF h, of None "Finite (1 / 4)" "PyInt 3" "''1-2-3''" "[]"]
  have "selection_if_returned [vcf_table] 0 (filter_position_ref [vcf_table] 0 ''1-2-3'')"
    by simp
  ultimately show ?thesis
    using a c p q by (simp add: selection_if_returned_def)
qed

subsection \<open>C10: falsy parameters in the pipeline\<close>

text \<open>
  C10: the pipeline applies an optional filter only when its parameter is truthy. An
  allele-frequency parameter of exactly 0 gives the same result as no allele-frequency
  parameter, and an empty string for the chromosome, the position range, the included or
  the excluded FILTER value gives the same result as leaving that parameter out.
\<close>

theorem falsy_parameters_skip:
  "process_vcf_file df sample depth (Some (Finite 0)) chr rng incl excl
     = process_vcf_file df sample depth None chr rng incl excl \<and>
   process_vcf_file df sample depth af (Some (PyStr [])) rng incl excl
     = process_vcf_file df sample depth af None rng incl excl \<and>
   process_vcf_file df sample depth af chr (Some []) incl excl
     = process_vcf_file df sample depth af chr None incl excl \<and>
   process_vcf_file df sample depth af chr rng (Some []) excl
     = process_vcf_file df sample depth af chr rng None excl \<and>
   process_vcf_file df sample depth af chr rng incl (Some [])
     = process_vcf_file df sample depth af chr rng incl None"
  by (simp add: process_vcf_file_def truthy_float_def truthy_val_def truthy_str_def)

end
